theory Spec2Isabelle
  imports Main
begin

section \<open>dinatra: the request-dispatch pipeline of \<^verbatim>\<open>mod.ts\<close>\<close>

text \<open>
  The development embeds the class \<^verbatim>\<open>App\<close> of \<^verbatim>\<open>src/mod.ts\<close>: the route table
  (\<^verbatim>\<open>handlerMap\<close>, \<^verbatim>\<open>handle\<close>), the dispatcher (\<^verbatim>\<open>respond\<close>), the static fallback
  (\<^verbatim>\<open>respondStatic\<close>) and the accept loop (\<^verbatim>\<open>serve\<close>).

  Conventions of the embedding.
  \<^item> A JavaScript string is a \<^typ>\<open>string\<close>; the model covers strings whose code units are
    below 256.
  \<^item> A \<^verbatim>\<open>throw\<close> is the left injection of a sum; the thrown value is a number
    (\<^verbatim>\<open>typeof err === 'number'\<close>, modelled by an integer) or anything else.
  \<^item> What the code does to the outside world (constructing a decoder, reading the body,
    calling \<^verbatim>\<open>stat\<close> and \<^verbatim>\<open>open\<close>, invoking a handler, \<^verbatim>\<open>console.error\<close>,
    \<^verbatim>\<open>req.respond\<close>) is recorded, in order, in a list of events returned next to the
    result.
  \<^item> The platform and the collaborators that \<^verbatim>\<open>mod.ts\<close> imports are the fields of an
    environment record; each is consulted at most once per argument while one request is
    handled, so a function of the argument loses nothing there.
  \<^item> Handlers and platform calls are taken to settle (return or throw); a promise that
    never resolves is outside the model.
\<close>

subsection \<open>Data\<close>

datatype 'x thrown = ThrownNumber int | ThrownOther 'x

type_synonym 'v Params = "string \<rightharpoonup> 'v"

record 'v Context =
  ctx_path :: string
  ctx_method :: string
  ctx_params :: "'v Params"

text \<open>
  Modelled from the spec: \<^verbatim>\<open>response.ts\<close> is missing. A Response is a full triple
  (status, headers, body) or the shorthand pair (status, body string); a body is a
  string or a byte source (here: the handle returned by \<^verbatim>\<open>open\<close>).
\<close>

datatype 'f ResponseBody = BodyString string | BodyReader 'f

datatype 'f Response =
  StatusHeadersBody int "string \<rightharpoonup> string" "'f ResponseBody"
| StatusBody int string

text \<open>\<^verbatim>\<open>Deno.FileInfo\<close>: the two predicates and the length that \<^verbatim>\<open>respondStatic\<close> reads.\<close>

record FileInfo =
  isDirectory :: bool
  isFile :: bool
  len :: nat

text \<open>
  What the code reads of a \<^verbatim>\<open>ServerRequest\<close>: \<^verbatim>\<open>req.url\<close> (possibly undefined),
  \<^verbatim>\<open>req.method\<close>, \<^verbatim>\<open>req.headers.get('content-type')\<close> (possibly null) and the
  outcome of \<^verbatim>\<open>await req.body()\<close>.
\<close>

record ('x, 'b) ServerRequest =
  req_url :: "string option"
  req_method :: string
  req_content_type :: "string option"
  req_body :: "'x thrown + 'b"

datatype ('h, 'v, 'x, 'f) event =
  NewTextDecoder string
| ReadBody
| Stat string
| Open string
| Invoke 'h "'v Context"
| ConsoleError 'x
| Respond "'f Response"

text \<open>
  The imports of \<^verbatim>\<open>mod.ts\<close> that are not under \<^verbatim>\<open>src/\<close>, and the platform.
  \<^verbatim>\<open>JSON_parse\<close> is \<^verbatim>\<open>None\<close> where \<^verbatim>\<open>JSON.parse\<close> throws; \<^verbatim>\<open>Object_props\<close> gives
  the own enumerable properties that \<^verbatim>\<open>Object.assign\<close> copies from a parsed value;
  \<^verbatim>\<open>TextDecoder\<close> is the constructor applied to a label, yielding the \<^verbatim>\<open>decode\<close>
  function or the exception for an unsupported label; \<^verbatim>\<open>call\<close> applies a handler to a
  context (awaiting a returned promise), where \<^verbatim>\<open>None\<close> is a falsy result.
\<close>

record ('h, 'v, 'x, 'f, 'b) env =
  parseURLSearchParams :: "string \<Rightarrow> 'v Params"
  JSON_parse :: "string \<Rightarrow> 'v option"
  Object_props :: "'v \<Rightarrow> 'v Params"
  TextDecoder :: "string \<Rightarrow> 'x thrown + ('b \<Rightarrow> string)"
  getErrorMessage :: "int \<Rightarrow> string"
  detectedContentType :: "string \<Rightarrow> (string \<rightharpoonup> string)"
  Deno_stat :: "string \<Rightarrow> 'x thrown + FileInfo"
  Deno_open :: "string \<Rightarrow> 'x thrown + 'f"
  call :: "'h \<Rightarrow> 'v Context \<Rightarrow> 'x thrown + 'f Response option"

type_synonym 'h HandlerMap = "string \<rightharpoonup> (string \<rightharpoonup> 'h)"

record 'h App =
  port :: nat
  staticEnabled :: bool
  publicDir :: string
  handlerMap :: "'h HandlerMap"

record 'h HandlerConfig =
  cfg_path :: string
  cfg_method :: string
  cfg_handler :: 'h

subsection \<open>Constants of the missing modules\<close>

text \<open>
  Modelled from the spec: \<^verbatim>\<open>handler.ts\<close> is missing. The enum \<^verbatim>\<open>Method\<close> has the
  members GET, POST, PUT, PATCH, DELETE, OPTIONS, LINK, UNLINK, each key being its own
  string value.
\<close>

definition Method_keys :: "string list" where
  "Method_keys =
     [''GET'', ''POST'', ''PUT'', ''PATCH'', ''DELETE'', ''OPTIONS'', ''LINK'', ''UNLINK'']"

definition Method_GET :: string where
  "Method_GET = ''GET''"

text \<open>
  Modelled from the spec: \<^verbatim>\<open>errors.ts\<close> is missing. The enum \<^verbatim>\<open>ErrorCode\<close> is a closed
  set of HTTP status integers containing 400 Bad Request, 404 Not Found and 500 Internal
  Server Error. Its other members are not known; \<^verbatim>\<open>isHttpStatus\<close> is the range of all
  HTTP status codes, which contains every member the enum can have.
\<close>

definition BadRequest :: int where
  "BadRequest = 400"

definition NotFound :: int where
  "NotFound = 404"

definition InternalServerError :: int where
  "InternalServerError = 500"

definition isHttpStatus :: "int \<Rightarrow> bool" where
  "isHttpStatus n \<longleftrightarrow> 100 \<le> n \<and> n \<le> 599"

subsection \<open>String primitives of the platform\<close>

text \<open>
  \<^verbatim>\<open>s.split(sep)\<close> for a one-character separator. The result of the JavaScript
  function is never empty; it is returned as its first element and the rest.
\<close>

fun js_split :: "char \<Rightarrow> string \<Rightarrow> string \<times> string list" where
  "js_split sep [] = ([], [])"
| "js_split sep (c # cs) =
     (case js_split sep cs of
        (w, ws) \<Rightarrow> if c = sep then ([], w # ws) else (c # w, ws))"

text \<open>\<^verbatim>\<open>s.trim()\<close>: white space and line terminators below code unit 256.\<close>

definition isWhiteSpace :: "char \<Rightarrow> bool" where
  "isWhiteSpace c \<longleftrightarrow>
     c \<in> set [CHR 0x09, CHR 0x0A, CHR 0x0B, CHR 0x0C, CHR 0x0D, CHR 0x20, CHR 0xA0]"

definition trim :: "string \<Rightarrow> string" where
  "trim s = rev (dropWhile isWhiteSpace (rev (dropWhile isWhiteSpace s)))"

text \<open>\<^verbatim>\<open>n.toString()\<close> for a non-negative integer: its decimal digits.\<close>

definition digit :: "nat \<Rightarrow> char" where
  "digit d = ''0123456789'' ! d"

fun toString :: "nat \<Rightarrow> string" where
  "toString n = (if n < 10 then [digit n] else toString (n div 10) @ [digit (n mod 10)])"

declare toString.simps [simp del]

text \<open>
  \<^verbatim>\<open>req.url.split(/\?(.+)/)\<close>, destructured into \<^verbatim>\<open>[path, search]\<close>. The regular
  expression matches a question mark followed by at least one character that is not a
  line terminator, and captures greedily up to the next line terminator; \<^verbatim>\<open>split\<close>
  cuts at the leftmost match and puts the capture second. Without a match the array has
  one element and \<^verbatim>\<open>search\<close> is undefined.
\<close>

definition isLineTerminator :: "char \<Rightarrow> bool" where
  "isLineTerminator c \<longleftrightarrow> c = CHR 0x0A \<or> c = CHR 0x0D"

fun splitUrl :: "string \<Rightarrow> string \<times> string option" where
  "splitUrl [] = ([], None)"
| "splitUrl (c # cs) =
     (if c = CHR ''?'' \<and> cs \<noteq> [] \<and> \<not> isLineTerminator (hd cs)
      then ([], Some (takeWhile (\<lambda>d. \<not> isLineTerminator d) cs))
      else (case splitUrl cs of (p, s) \<Rightarrow> (c # p, s)))"

subsection \<open>The route table\<close>

text \<open>The constructor: one empty path map per key of \<^verbatim>\<open>Method\<close>.\<close>

definition new_App :: "nat \<Rightarrow> bool \<Rightarrow> string \<Rightarrow> 'h App" where
  "new_App port' staticEnabled' publicDir' =
     \<lparr> port = port', staticEnabled = staticEnabled', publicDir = publicDir',
       handlerMap = fold (\<lambda>method hm. hm(method \<mapsto> Map.empty)) Method_keys Map.empty \<rparr>"

text \<open>
  \<^verbatim>\<open>handle\<close>: \<^verbatim>\<open>this.handlerMap.get(method).set(path, handler)\<close> for each
  configuration in turn. \<^verbatim>\<open>None\<close> is the TypeError of calling \<^verbatim>\<open>set\<close> on undefined,
  for a method that is no key of the table.
\<close>

fun handle :: "'h HandlerConfig list \<Rightarrow> 'h App \<Rightarrow> 'h App option" where
  "handle [] app = Some app"
| "handle (c # cs) app =
     (case handlerMap app (cfg_method c) of
        None \<Rightarrow> None
      | Some m \<Rightarrow>
          handle cs
            (app\<lparr>handlerMap := (handlerMap app)(cfg_method c \<mapsto> m(cfg_path c \<mapsto> cfg_handler c))\<rparr>))"

subsection \<open>The dispatcher\<close>

text \<open>Lines 103 to 107: the reduce over the content-type parameters.\<close>

definition typeParams_of :: "string list \<Rightarrow> (string \<rightharpoonup> string option)" where
  "typeParams_of typeParamsArray =
     fold (\<lambda>curr params.
             case js_split CHR ''='' curr of
               (key, vs) \<Rightarrow> params(key \<mapsto> (case vs of [] \<Rightarrow> None | v # _ \<Rightarrow> Some v)))
          typeParamsArray Map.empty"

text \<open>Line 109: \<^verbatim>\<open>typeParams['charset'] || 'utf-8'\<close>.\<close>

definition charset_of :: "(string \<rightharpoonup> string option) \<Rightarrow> string" where
  "charset_of typeParams =
     (case typeParams ''charset'' of
        Some (Some v) \<Rightarrow> if v = [] then ''utf-8'' else v
      | _ \<Rightarrow> ''utf-8'')"


text \<open>Lines 98 to 102: the header or its default, split at semicolons, each part trimmed.\<close>

definition rawContentType_of :: "('x, 'b) ServerRequest \<Rightarrow> string" where
  "rawContentType_of req =
     (case req_content_type req of
        None \<Rightarrow> ''application/octet-stream''
      | Some v \<Rightarrow> if v = [] then ''application/octet-stream'' else v)"

definition contentType_parts :: "string \<Rightarrow> string \<times> string list" where
  "contentType_parts rawContentType =
     (case js_split CHR '';'' rawContentType of (c, ps) \<Rightarrow> (trim c, map trim ps))"

text \<open>Lines 92 to 129 of \<^verbatim>\<open>respond\<close>: the construction of \<^verbatim>\<open>params\<close>.\<close>

definition buildParams ::
  "('h, 'v, 'x, 'f, 'b) env \<Rightarrow> string option \<Rightarrow> string \<Rightarrow> ('x, 'b) ServerRequest
     \<Rightarrow> ('h, 'v, 'x, 'f) event list \<times> ('x thrown + 'v Params)" where
  "buildParams env search method req =
     (if method = Method_GET then
        (case search of
           None \<Rightarrow> ([], Inr Map.empty)
         | Some s \<Rightarrow>
             if s = [] then ([], Inr Map.empty)
             else ([], Inr (Map.empty ++ parseURLSearchParams env s)))
      else
        (case contentType_parts (rawContentType_of req) of
           (contentType, typeParamsArray) \<Rightarrow>
             let label = charset_of (typeParams_of typeParamsArray) in
             (case TextDecoder env label of
                Inl e \<Rightarrow> ([NewTextDecoder label], Inl e)
              | Inr decode \<Rightarrow>
                  (case req_body req of
                     Inl e \<Rightarrow> ([NewTextDecoder label, ReadBody], Inl e)
                   | Inr bytes \<Rightarrow>
                       let decodedBody = decode bytes in
                       ([NewTextDecoder label, ReadBody],
                        if contentType = ''application/x-www-form-urlencoded'' then
                          Inr (Map.empty ++ parseURLSearchParams env decodedBody)
                        else if contentType = ''application/json'' then
                          (case JSON_parse env decodedBody of
                             None \<Rightarrow> Inl (ThrownNumber BadRequest)
                           | Some obj \<Rightarrow> Inr (Map.empty ++ Object_props env obj))
                        else Inr Map.empty)))))"

text \<open>\<^verbatim>\<open>respond\<close>: \<^verbatim>\<open>Inr None\<close> is the returned null.\<close>

definition respond ::
  "('h, 'v, 'x, 'f, 'b) env \<Rightarrow> 'h App \<Rightarrow> string \<Rightarrow> string option \<Rightarrow> string
     \<Rightarrow> ('x, 'b) ServerRequest
     \<Rightarrow> ('h, 'v, 'x, 'f) event list \<times> ('x thrown + 'f Response option)" where
  "respond env app path search method req =
     (case handlerMap app method of
        None \<Rightarrow> ([], Inr None)
      | Some m \<Rightarrow>
          (case m path of
             None \<Rightarrow> ([], Inr None)
           | Some handler \<Rightarrow>
               (case buildParams env search method req of
                  (evs, Inl e) \<Rightarrow> (evs, Inl e)
                | (evs, Inr params) \<Rightarrow>
                    let ctx = \<lparr> ctx_path = path, ctx_method = method, ctx_params = params \<rparr>
                    in (evs @ [Invoke handler ctx], call env handler ctx))))"

text \<open>Lines 82 to 90 of \<^verbatim>\<open>respond\<close>: the two \<^verbatim>\<open>get\<close> calls as one lookup.\<close>

definition lookup :: "'h App \<Rightarrow> string \<Rightarrow> string \<Rightarrow> 'h option" where
  "lookup app method path =
     (case handlerMap app method of None \<Rightarrow> None | Some m \<Rightarrow> m path)"

text \<open>The events that are handler invocations.\<close>

fun isInvoke :: "('h, 'v, 'x, 'f) event \<Rightarrow> bool" where
  "isInvoke (Invoke h ctx) = True"
| "isInvoke e = False"

text \<open>The events that are responses sent.\<close>

fun isRespond :: "('h, 'v, 'x, 'f) event \<Rightarrow> bool" where
  "isRespond (Respond r) = True"
| "isRespond e = False"

subsection \<open>The static fallback\<close>

text \<open>
  \<^verbatim>\<open>respondStatic\<close>. A failing first \<^verbatim>\<open>stat\<close> leaves \<^verbatim>\<open>fileInfo\<close> undefined, a
  failing second one sets it to null; both are \<^verbatim>\<open>None\<close> here.
\<close>

definition respondStatic ::
  "('h, 'v, 'x, 'f, 'b) env \<Rightarrow> 'h App \<Rightarrow> string
     \<Rightarrow> ('h, 'v, 'x, 'f) event list \<times> ('x thrown + 'f Response option)" where
  "respondStatic env app path =
     (let staticFilePath = publicDir app @ path;
          fileInfo = (case Deno_stat env staticFilePath of Inl e \<Rightarrow> None | Inr fi \<Rightarrow> Some fi);
          (evs, staticFilePath, fileInfo) =
            (case fileInfo of
               Some fi \<Rightarrow>
                 if isDirectory fi then
                   ([Stat staticFilePath, Stat (staticFilePath @ ''/index.html'')],
                    staticFilePath @ ''/index.html'',
                    (case Deno_stat env (staticFilePath @ ''/index.html'') of
                       Inl e \<Rightarrow> None
                     | Inr fi' \<Rightarrow> Some fi'))
                 else ([Stat staticFilePath], staticFilePath, fileInfo)
             | None \<Rightarrow> ([Stat staticFilePath], staticFilePath, fileInfo))
      in case fileInfo of
           None \<Rightarrow> (evs, Inr None)
         | Some fi \<Rightarrow>
             if \<not> isFile fi then (evs, Inr None)
             else
               (case Deno_open env staticFilePath of
                  Inl e \<Rightarrow> (evs @ [Open staticFilePath], Inl e)
                | Inr file \<Rightarrow>
                    (evs @ [Open staticFilePath],
                     Inr (Some (StatusHeadersBody 200
                                  ([''Content-Length'' \<mapsto> toString (len fi)]
                                     ++ detectedContentType env staticFilePath)
                                  (BodyReader file))))))"

subsection \<open>The accept loop\<close>

text \<open>Lines 158 to 163: the body of the \<^verbatim>\<open>try\<close> block.\<close>

definition tryBlock ::
  "('h, 'v, 'x, 'f, 'b) env \<Rightarrow> 'h App \<Rightarrow> string \<Rightarrow> string option \<Rightarrow> string
     \<Rightarrow> ('x, 'b) ServerRequest
     \<Rightarrow> ('h, 'v, 'x, 'f) event list \<times> ('x thrown + 'f Response)" where
  "tryBlock env app path search method req =
     (case respond env app path search method req of
        (evs, Inl e) \<Rightarrow> (evs, Inl e)
      | (evs, Inr (Some r)) \<Rightarrow> (evs, Inr r)
      | (evs, Inr None) \<Rightarrow>
          if staticEnabled app then
            (case respondStatic env app path of
               (evs', Inl e) \<Rightarrow> (evs @ evs', Inl e)
             | (evs', Inr (Some r)) \<Rightarrow> (evs @ evs', Inr r)
             | (evs', Inr None) \<Rightarrow> (evs @ evs', Inl (ThrownNumber NotFound)))
          else (evs, Inl (ThrownNumber NotFound)))"

text \<open>Lines 164 to 172: the \<^verbatim>\<open>catch\<close> block.\<close>

definition catchBlock ::
  "('h, 'v, 'x, 'f, 'b) env \<Rightarrow> 'x thrown \<Rightarrow> ('h, 'v, 'x, 'f) event list \<times> 'f Response" where
  "catchBlock env err =
     (case err of
        ThrownNumber n \<Rightarrow> ([], StatusBody n (getErrorMessage env n))
      | ThrownOther x \<Rightarrow>
          ([ConsoleError x],
           StatusBody InternalServerError (getErrorMessage env InternalServerError)))"

text \<open>
  One iteration of the \<^verbatim>\<open>for await\<close> loop (lines 151 to 173). \<^verbatim>\<open>Inl\<close> is an
  exception that leaves the loop body: the promise of \<^verbatim>\<open>serve\<close> rejects and no later
  request is read. \<^verbatim>\<open>Respond r\<close> stands for \<^verbatim>\<open>req.respond(processResponse(r))\<close>,
  which is taken to succeed.
\<close>

definition iteration ::
  "('h, 'v, 'x, 'f, 'b) env \<Rightarrow> 'h App \<Rightarrow> ('x, 'b) ServerRequest
     \<Rightarrow> ('h, 'v, 'x, 'f) event list \<times> ('x thrown + unit)" where
  "iteration env app req =
     (case req_url req of
        None \<Rightarrow> ([], Inl (ThrownNumber NotFound))
      | Some url \<Rightarrow>
          if url = [] then ([], Inl (ThrownNumber NotFound))
          else
            (case splitUrl url of
               (path, search) \<Rightarrow>
                 (case tryBlock env app path search (req_method req) req of
                    (evs, Inr r) \<Rightarrow> (evs @ [Respond r], Inr ())
                  | (evs, Inl err) \<Rightarrow>
                      (case catchBlock env err of
                         (evs', r) \<Rightarrow> (evs @ evs' @ [Respond r], Inr ())))))"

text \<open>The loop over the requests that the server yields, in order.\<close>

fun serve ::
  "('h, 'v, 'x, 'f, 'b) env \<Rightarrow> 'h App \<Rightarrow> ('x, 'b) ServerRequest list
     \<Rightarrow> ('h, 'v, 'x, 'f) event list \<times> ('x thrown + unit)" where
  "serve env app [] = ([], Inr ())"
| "serve env app (req # reqs) =
     (case iteration env app req of
        (evs, Inl e) \<Rightarrow> (evs, Inl e)
      | (evs, Inr u) \<Rightarrow>
          (case serve env app reqs of (evs', res) \<Rightarrow> (evs @ evs', res)))"

subsection \<open>An example application\<close>

text \<open>
  A small application used to evaluate the definitions on concrete requests: three
  routes, a public directory with a directory \<^verbatim>\<open>docs\<close> holding an \<^verbatim>\<open>index.html\<close>
  of 1234 bytes and an empty directory \<^verbatim>\<open>empty\<close>, and a platform that decodes
  \<^verbatim>\<open>utf-8\<close> only.
\<close>

definition example_env :: "(string, string, string, string, string) env" where
  "example_env =
     \<lparr> parseURLSearchParams = (\<lambda>s. [''raw'' \<mapsto> s]),
       JSON_parse = (\<lambda>s. if s = ''{}'' then Some ''{}'' else None),
       Object_props = (\<lambda>v. Map.empty),
       TextDecoder =
         (\<lambda>l. if l = ''utf-8'' then Inr (\<lambda>b. b) else Inl (ThrownOther ''RangeError'')),
       getErrorMessage =
         (\<lambda>n. if n = 400 then ''Bad Request'' else if n = 404 then ''Not Found''
               else if n = 500 then ''Internal Server Error'' else ''Unknown''),
       detectedContentType = (\<lambda>p. [''Content-Type'' \<mapsto> ''text/html'']),
       Deno_stat =
         (\<lambda>p. if p = ''public/docs''
               then Inr \<lparr> isDirectory = True, isFile = False, len = 0 \<rparr>
               else if p = ''public/docs/index.html''
               then Inr \<lparr> isDirectory = False, isFile = True, len = 1234 \<rparr>
               else if p = ''public/empty''
               then Inr \<lparr> isDirectory = True, isFile = False, len = 0 \<rparr>
               else Inl (ThrownOther ''NotFound'')),
       Deno_open = (\<lambda>p. Inr p),
       call =
         (\<lambda>h ctx. if h = ''hello'' then Inr (Some (StatusBody 200 ''hello''))
                   else if h = ''teapot'' then Inl (ThrownNumber 1000)
                   else Inl (ThrownOther ''TypeError'')) \<rparr>"


definition example_cfgs :: "string HandlerConfig list" where
  "example_cfgs =
     [\<lparr> cfg_path = ''/hi'', cfg_method = ''GET'', cfg_handler = ''hello'' \<rparr>,
      \<lparr> cfg_path = ''/data'', cfg_method = ''POST'', cfg_handler = ''hello'' \<rparr>,
      \<lparr> cfg_path = ''/tea'', cfg_method = ''GET'', cfg_handler = ''teapot'' \<rparr>]"

definition example_app :: "string App" where
  "example_app =
     (let a0 = new_App 8080 True ''public'';
          a1 = a0\<lparr>handlerMap := (handlerMap a0)(''GET'' \<mapsto> Map.empty(''/hi'' \<mapsto> ''hello''))\<rparr>;
          a2 = a1\<lparr>handlerMap := (handlerMap a1)(''POST'' \<mapsto> Map.empty(''/data'' \<mapsto> ''hello''))\<rparr>
      in a2\<lparr>handlerMap :=
               (handlerMap a2)(''GET'' \<mapsto> (Map.empty(''/hi'' \<mapsto> ''hello''))(''/tea'' \<mapsto> ''teapot''))\<rparr>)"

definition example_request ::
  "string \<Rightarrow> string \<Rightarrow> string option \<Rightarrow> string \<Rightarrow> (string, string) ServerRequest" where
  "example_request method url ct bytes =
     \<lparr> req_url = Some url, req_method = method, req_content_type = ct, req_body = Inr bytes \<rparr>"

section \<open>Properties\<close>

subsection \<open>Auxiliary facts\<close>

lemma fst_js_split: "fst (js_split sep s) = takeWhile (\<lambda>c. c \<noteq> sep) s"
  by (induction s) (auto split: prod.splits)

lemma js_split_no_sep: "sep \<notin> set s \<Longrightarrow> js_split sep s = (s, [])"
  by (induction s) (auto split: prod.splits)

lemma handlerMap_new_App:
  "handlerMap (new_App p s d) method
     = (if method \<in> set Method_keys then Some Map.empty else None)"
  by (simp add: new_App_def Method_keys_def)

lemma example_handle: "handle example_cfgs (new_App 8080 True ''public'') = Some example_app"
  by (simp add: example_cfgs_def example_app_def handlerMap_new_App Method_keys_def Let_def)

lemma example_app_GET:
  "handlerMap example_app ''GET''
     = Some ((Map.empty(''/hi'' \<mapsto> ''hello''))(''/tea'' \<mapsto> ''teapot''))"
  by (simp add: example_app_def Let_def)

lemma example_app_POST:
  "handlerMap example_app ''POST'' = Some (Map.empty(''/data'' \<mapsto> ''hello''))"
  by (simp add: example_app_def Let_def)

lemma example_app_static: "staticEnabled example_app" "publicDir example_app = ''public''"
  by (simp_all add: example_app_def Let_def new_App_def)

lemma example_request_sel:
  "req_url (example_request method url ct bytes) = Some url"
  "req_method (example_request method url ct bytes) = method"
  "req_content_type (example_request method url ct bytes) = ct"
  "req_body (example_request method url ct bytes) = Inr bytes"
  by (simp_all add: example_request_def)

lemma example_env_sel:
  "getErrorMessage example_env 400 = ''Bad Request''"
  "getErrorMessage example_env 404 = ''Not Found''"
  "getErrorMessage example_env 500 = ''Internal Server Error''"
  "getErrorMessage example_env 1000 = ''Unknown''"
  "TextDecoder example_env ''utf-8'' = Inr (\<lambda>b. b)"
  by (simp_all add: example_env_def)

subsection \<open>Static fallback: failing stats\<close>

text \<open>
  Claim C6. In \<^verbatim>\<open>respondStatic\<close>, a failure of the stat of \<^verbatim>\<open>publicDir + path\<close>,
  whatever was thrown, gives the null result after that single stat and throws nothing.
  When the first stat succeeds and names a directory, the next call is the stat of that
  path followed by \<^verbatim>\<open>/index.html\<close>; when that one fails, whatever was thrown, the
  result is null again and nothing is called after the two stats.
\<close>

theorem respondStatic_stat_failure:
  "(Deno_stat env (publicDir app @ path) = Inl e \<longrightarrow>
      respondStatic env app path = ([Stat (publicDir app @ path)], Inr None))
   \<and> (Deno_stat env (publicDir app @ path) = Inr fi \<and> isDirectory fi \<longrightarrow>
        take 2 (fst (respondStatic env app path))
          = [Stat (publicDir app @ path), Stat ((publicDir app @ path) @ ''/index.html'')])
   \<and> (Deno_stat env (publicDir app @ path) = Inr fi \<and> isDirectory fi
        \<and> Deno_stat env ((publicDir app @ path) @ ''/index.html'') = Inl e' \<longrightarrow>
        respondStatic env app path
          = ([Stat (publicDir app @ path), Stat ((publicDir app @ path) @ ''/index.html'')],
             Inr None))"
  by (simp add: respondStatic_def Let_def split: sum.splits)

theorem respondStatic_stat_failure_witness:
  "respondStatic example_env example_app ''/missing'' = ([Stat ''public/missing''], Inr None)
   \<and> respondStatic example_env example_app ''/empty''
       = ([Stat ''public/empty'', Stat ''public/empty/index.html''], Inr None)"
  using respondStatic_stat_failure
      [of example_env example_app "''/missing''" "ThrownOther ''NotFound''"]
    respondStatic_stat_failure
      [of example_env example_app "''/empty''" _
        "\<lparr> isDirectory = True, isFile = False, len = 0 \<rparr>" "ThrownOther ''NotFound''"]
  by (simp add: example_env_def example_app_def new_App_def)

subsection \<open>No route and no file\<close>

text \<open>
  Claim C3. A request with a non-empty target whose method and path have no entry in the
  route table, and for which the static fallback (when enabled) returns null, is answered
  with status 404 and the message that \<^verbatim>\<open>getErrorMessage\<close> gives for 404; the only
  calls before the response are the stats of the fallback.
\<close>

theorem no_route_no_file_is_404:
  assumes "req_url req = Some url" and "url \<noteq> []" and "splitUrl url = (path, search)"
    and "\<forall>m. handlerMap app (req_method req) = Some m \<longrightarrow> m path = None"
    and "staticEnabled app \<longrightarrow> snd (respondStatic env app path) = Inr None"
  shows "iteration env app req
           = ((if staticEnabled app then fst (respondStatic env app path) else [])
                @ [Respond (StatusBody 404 (getErrorMessage env 404))],
              Inr ())"
proof -
  have r: "respond env app path search (req_method req) req = ([], Inr None)"
    using assms(4) by (auto simp: respond_def split: option.splits)
  show ?thesis
  proof (cases "staticEnabled app")
    case True
    with assms(5) obtain evs where st: "respondStatic env app path = (evs, Inr None)"
      by (cases "respondStatic env app path") auto
    have "tryBlock env app path search (req_method req) req = (evs, Inl (ThrownNumber NotFound))"
      using True r st by (simp add: tryBlock_def)
    then show ?thesis
      using True assms(1-3) st by (simp add: iteration_def catchBlock_def NotFound_def)
  next
    case False
    then have "tryBlock env app path search (req_method req) req
                 = ([], Inl (ThrownNumber NotFound))"
      using r by (simp add: tryBlock_def)
    then show ?thesis
      using False assms(1-3) by (simp add: iteration_def catchBlock_def NotFound_def)
  qed
qed

theorem no_route_no_file_is_404_witness:
  "iteration example_env example_app (example_request ''GET'' ''/missing?x=1'' None [])
     = ([Stat ''public/missing'', Respond (StatusBody 404 ''Not Found'')], Inr ())"
proof -
  have s: "splitUrl ''/missing?x=1'' = (''/missing'', Some ''x=1'')"
    by (simp add: isLineTerminator_def)
  have st: "respondStatic example_env example_app ''/missing''
              = ([Stat ''public/missing''], Inr None)"
    by (simp add: respondStatic_def example_env_def example_app_static)
  show ?thesis
    using no_route_no_file_is_404 [of "example_request ''GET'' ''/missing?x=1'' None []"
        "''/missing?x=1''" "''/missing''" "Some ''x=1''" example_app example_env] s st
    by (simp add: example_request_def example_app_GET example_app_static example_env_def)
qed

subsection \<open>Failures caught by the accept loop\<close>

text \<open>
  Claim C4, as amended. Whatever the \<^verbatim>\<open>try\<close> block throws (from the dispatcher, a
  handler, the static fallback or the final Not-Found): when the thrown value is a number,
  recognised as an error code or not, the response has exactly that number as status and
  the message \<^verbatim>\<open>getErrorMessage\<close> gives for it, and nothing is logged; when it is
  anything else, it is logged with \<^verbatim>\<open>console.error\<close> and the response has status 500
  and the message for 500, in which the thrown value does not occur.
\<close>

theorem caught_failure_response:
  assumes "req_url req = Some url" and "url \<noteq> []" and "splitUrl url = (path, search)"
    and "tryBlock env app path search (req_method req) req = (evs, Inl err)"
  shows "iteration env app req
           = (case err of
                ThrownNumber n \<Rightarrow>
                  (evs @ [Respond (StatusBody n (getErrorMessage env n))], Inr ())
              | ThrownOther x \<Rightarrow>
                  (evs @ [ConsoleError x, Respond (StatusBody 500 (getErrorMessage env 500))],
                   Inr ()))"
  using assms
  by (simp add: iteration_def catchBlock_def InternalServerError_def split: thrown.splits)

lemma splitUrl_tea: "splitUrl ''/tea'' = (''/tea'', None)"
  by simp

lemma tryBlock_tea:
  "tryBlock example_env example_app ''/tea'' None ''GET'' (example_request ''GET'' ''/tea'' None [])
     = ([Invoke ''teapot'' \<lparr> ctx_path = ''/tea'', ctx_method = ''GET'', ctx_params = Map.empty \<rparr>],
        Inl (ThrownNumber 1000))"
  by (simp add: tryBlock_def respond_def buildParams_def Method_GET_def example_app_GET
      example_env_def)

theorem caught_failure_response_witness:
  "iteration example_env example_app (example_request ''GET'' ''/tea'' None [])
     = ([Invoke ''teapot'' \<lparr> ctx_path = ''/tea'', ctx_method = ''GET'', ctx_params = Map.empty \<rparr>,
         Respond (StatusBody 1000 ''Unknown'')], Inr ())"
  using caught_failure_response [of "example_request ''GET'' ''/tea'' None []" "''/tea''"
      "''/tea''" None example_env example_app _ "ThrownNumber 1000"] splitUrl_tea tryBlock_tea
  by (simp add: example_request_sel example_env_sel)

text \<open>
  The claim as written fails: the handler of \<^verbatim>\<open>GET /tea\<close> throws the number 1000,
  which is no HTTP status code and so no member of \<^verbatim>\<open>ErrorCode\<close>; the response has
  status 1000, not 500, and nothing is logged.
\<close>

theorem unrecognised_number_counterexample:
  "\<not> isHttpStatus 1000
   \<and> snd (tryBlock example_env example_app ''/tea'' None ''GET''
            (example_request ''GET'' ''/tea'' None [])) = Inl (ThrownNumber 1000)
   \<and> iteration example_env example_app (example_request ''GET'' ''/tea'' None [])
       = ([Invoke ''teapot'' \<lparr> ctx_path = ''/tea'', ctx_method = ''GET'', ctx_params = Map.empty \<rparr>,
           Respond (StatusBody 1000 ''Unknown'')], Inr ())"
  by (simp add: isHttpStatus_def tryBlock_tea iteration_def example_request_sel catchBlock_def
      example_env_sel)

subsection \<open>Malformed JSON bodies\<close>

text \<open>
  Claim C2. A request with a non-empty target that matches a route, whose method is not
  GET, whose trimmed first content-type component is \<^verbatim>\<open>application/json\<close> and whose
  body, read and decoded, is rejected by \<^verbatim>\<open>JSON.parse\<close>, is answered with status 400
  and the message \<^verbatim>\<open>getErrorMessage\<close> gives for 400. No handler is invoked and
  nothing is logged, and the outcome is the same whatever the handlers would do
  (\<^verbatim>\<open>call\<close> is arbitrary).
\<close>

theorem malformed_json_is_400:
  assumes "req_url req = Some url" and "url \<noteq> []" and "splitUrl url = (path, search)"
    and "handlerMap app (req_method req) = Some m" and "m path = Some handler"
    and "req_method req \<noteq> ''GET''"
    and "contentType_parts (rawContentType_of req) = (''application/json'', typeParamsArray)"
    and "TextDecoder env (charset_of (typeParams_of typeParamsArray)) = Inr decode"
    and "req_body req = Inr bytes"
    and "JSON_parse env (decode bytes) = None"
  shows "iteration (env\<lparr>call := c\<rparr>) app req
           = ([NewTextDecoder (charset_of (typeParams_of typeParamsArray)), ReadBody,
               Respond (StatusBody 400 (getErrorMessage env 400))], Inr ())"
proof -
  have b: "buildParams (env\<lparr>call := c\<rparr>) search (req_method req) req
             = ([NewTextDecoder (charset_of (typeParams_of typeParamsArray)), ReadBody],
                Inl (ThrownNumber BadRequest))"
    using assms(6-10) by (simp add: buildParams_def Method_GET_def)
  have "respond (env\<lparr>call := c\<rparr>) app path search (req_method req) req
          = ([NewTextDecoder (charset_of (typeParams_of typeParamsArray)), ReadBody],
             Inl (ThrownNumber BadRequest))"
    using assms(4,5) b by (simp add: respond_def)
  then have "tryBlock (env\<lparr>call := c\<rparr>) app path search (req_method req) req
          = ([NewTextDecoder (charset_of (typeParams_of typeParamsArray)), ReadBody],
             Inl (ThrownNumber BadRequest))"
    by (simp add: tryBlock_def)
  then show ?thesis
    using assms(1-3) by (simp add: iteration_def catchBlock_def BadRequest_def)
qed

lemma contentType_parts_json:
  "contentType_parts ''application/json; charset=utf-8'' = (''application/json'', [''charset=utf-8''])"
  by (simp add: contentType_parts_def trim_def isWhiteSpace_def)

lemma charset_utf8: "charset_of (typeParams_of [''charset=utf-8'']) = ''utf-8''"
  by (simp add: charset_of_def typeParams_of_def)

theorem malformed_json_is_400_witness:
  "iteration (example_env\<lparr>call := (\<lambda>h ctx. Inr (Some (StatusBody 200 ''done'')))\<rparr>) example_app
     (example_request ''POST'' ''/data'' (Some ''application/json; charset=utf-8'') ''{oops'')
     = ([NewTextDecoder ''utf-8'', ReadBody, Respond (StatusBody 400 ''Bad Request'')], Inr ())"
proof -
  have s: "splitUrl ''/data'' = (''/data'', None)"
    by simp
  show ?thesis
    using malformed_json_is_400 [of
        "example_request ''POST'' ''/data'' (Some ''application/json; charset=utf-8'') ''{oops''"
        "''/data''" "''/data''" None example_app "Map.empty(''/data'' \<mapsto> ''hello'')" "''hello''"
        "[''charset=utf-8'']" example_env "\<lambda>b. b" "''{oops''"
        "\<lambda>h ctx. Inr (Some (StatusBody 200 ''done''))"]
      s contentType_parts_json charset_utf8
    by (simp add: example_request_sel example_app_POST rawContentType_of_def example_env_def)
qed

subsection \<open>Static fallback: serving a file\<close>

text \<open>
  Claim C5. When the stat of \<^verbatim>\<open>publicDir + path\<close> names a regular file, or names a
  directory whose \<^verbatim>\<open>index.html\<close> is a regular file, and \<^verbatim>\<open>open\<close> of the resolved
  path succeeds, \<^verbatim>\<open>respondStatic\<close> returns status 200, headers that hold
  \<^verbatim>\<open>Content-Length\<close> with the decimal byte size of the file together with every
  header of \<^verbatim>\<open>detectedContentType\<close> for the resolved path, and as body the handle
  that \<^verbatim>\<open>open\<close> returned (the last call made), not the contents of the file. The
  Content-Type Resolver is taken to return content-type headers only, so that the spread
  in the object literal does not overwrite \<^verbatim>\<open>Content-Length\<close>.
\<close>

theorem respondStatic_serves_file:
  assumes "(Deno_stat env (publicDir app @ path) = Inr fi \<and> \<not> isDirectory fi
              \<and> p = publicDir app @ path)
           \<or> (\<exists>d. Deno_stat env (publicDir app @ path) = Inr d \<and> isDirectory d
                 \<and> Deno_stat env ((publicDir app @ path) @ ''/index.html'') = Inr fi
                 \<and> p = (publicDir app @ path) @ ''/index.html'')"
    and "isFile fi" and "Deno_open env p = Inr file"
    and "''Content-Length'' \<notin> dom (detectedContentType env p)"
  shows "snd (respondStatic env app path)
           = Inr (Some (StatusHeadersBody 200
                          ([''Content-Length'' \<mapsto> toString (len fi)] ++ detectedContentType env p)
                          (BodyReader file)))
         \<and> ([''Content-Length'' \<mapsto> toString (len fi)] ++ detectedContentType env p)
              ''Content-Length'' = Some (toString (len fi))
         \<and> detectedContentType env p
              \<subseteq>\<^sub>m [''Content-Length'' \<mapsto> toString (len fi)] ++ detectedContentType env p
         \<and> last (fst (respondStatic env app path)) = Open p"
proof -
  let ?h = "[''Content-Length'' \<mapsto> toString (len fi)] ++ detectedContentType env p"
  have h1: "?h ''Content-Length'' = Some (toString (len fi))"
    using assms(4) by (simp add: map_add_def domIff split: option.splits)
  have h2: "detectedContentType env p \<subseteq>\<^sub>m ?h"
    by (rule map_le_map_add)
  from assms(1) show ?thesis
  proof
    assume a: "Deno_stat env (publicDir app @ path) = Inr fi \<and> \<not> isDirectory fi
                 \<and> p = publicDir app @ path"
    then have "respondStatic env app path
                 = ([Stat (publicDir app @ path), Open p],
                    Inr (Some (StatusHeadersBody 200 ?h (BodyReader file))))"
      using assms(2,3) by (simp add: respondStatic_def Let_def)
    then show ?thesis using h1 h2 by simp
  next
    assume "\<exists>d. Deno_stat env (publicDir app @ path) = Inr d \<and> isDirectory d
                 \<and> Deno_stat env ((publicDir app @ path) @ ''/index.html'') = Inr fi
                 \<and> p = (publicDir app @ path) @ ''/index.html''"
    then obtain d where a: "Deno_stat env (publicDir app @ path) = Inr d" "isDirectory d"
        "Deno_stat env ((publicDir app @ path) @ ''/index.html'') = Inr fi"
        "p = (publicDir app @ path) @ ''/index.html''"
      by blast
    then have "respondStatic env app path
                 = ([Stat (publicDir app @ path), Stat p, Open p],
                    Inr (Some (StatusHeadersBody 200 ?h (BodyReader file))))"
      using assms(2,3) by (simp add: respondStatic_def Let_def)
    then show ?thesis using h1 h2 by simp
  qed
qed

lemma toString_1234: "toString 1234 = ''1234''"
  by (simp add: toString.simps digit_def)

lemma respondStatic_docs:
  "respondStatic example_env example_app ''/docs''
     = ([Stat ''public/docs'', Stat ''public/docs/index.html'', Open ''public/docs/index.html''],
        Inr (Some (StatusHeadersBody 200
                     [''Content-Length'' \<mapsto> ''1234'', ''Content-Type'' \<mapsto> ''text/html'']
                     (BodyReader ''public/docs/index.html''))))"
  by (simp add: respondStatic_def Let_def example_env_def example_app_static toString_1234)

theorem respondStatic_serves_file_witness:
  "snd (respondStatic example_env example_app ''/docs'')
     = Inr (Some (StatusHeadersBody 200
                    [''Content-Length'' \<mapsto> ''1234'', ''Content-Type'' \<mapsto> ''text/html'']
                    (BodyReader ''public/docs/index.html'')))
   \<and> [''Content-Length'' \<mapsto> ''1234'', ''Content-Type'' \<mapsto> ''text/html''] ''Content-Length''
       = Some ''1234''
   \<and> last (fst (respondStatic example_env example_app ''/docs'')) = Open ''public/docs/index.html''"
  using respondStatic_serves_file [of example_env example_app "''/docs''"
      "\<lparr> isDirectory = False, isFile = True, len = 1234 \<rparr>" "''public/docs/index.html''"
      "''public/docs/index.html''"] toString_1234
  by (simp add: example_env_def example_app_static)

subsection \<open>Dispatch to the registered handler\<close>

lemma handle_append:
  "handle (pre @ cs) app = (case handle pre app of None \<Rightarrow> None | Some a \<Rightarrow> handle cs a)"
  by (induction pre arbitrary: app) (auto split: option.splits)

lemma handle_preserves_lookup:
  "handle cs app = Some app' \<Longrightarrow>
   \<forall>c' \<in> set cs. \<not> (cfg_method c' = method \<and> cfg_path c' = path) \<Longrightarrow>
   lookup app' method path = lookup app method path"
proof (induction cs arbitrary: app)
  case Nil
  then show ?case by simp
next
  case (Cons c cs)
  from Cons.prems(1) obtain m where m: "handlerMap app (cfg_method c) = Some m"
    and h: "handle cs
              (app\<lparr>handlerMap := (handlerMap app)(cfg_method c \<mapsto> m(cfg_path c \<mapsto> cfg_handler c))\<rparr>)
              = Some app'"
    by (auto split: option.splits)
  have "lookup app' method path
          = lookup (app\<lparr>handlerMap := (handlerMap app)(cfg_method c \<mapsto> m(cfg_path c \<mapsto> cfg_handler c))\<rparr>)
              method path"
    using Cons.IH [OF h] Cons.prems(2) by simp
  also have "\<dots> = lookup app method path"
    using Cons.prems(2) m by (auto simp: lookup_def)
  finally show ?case .
qed

lemma handle_registers:
  assumes "handle (pre @ c # post) app0 = Some app"
    and "\<forall>c' \<in> set post. \<not> (cfg_method c' = cfg_method c \<and> cfg_path c' = cfg_path c)"
  shows "lookup app (cfg_method c) (cfg_path c) = Some (cfg_handler c)"
proof -
  from assms(1) obtain a1 where "handle (c # post) a1 = Some app"
    by (auto simp: handle_append split: option.splits)
  then obtain m where m: "handlerMap a1 (cfg_method c) = Some m"
    and h: "handle post
              (a1\<lparr>handlerMap := (handlerMap a1)(cfg_method c \<mapsto> m(cfg_path c \<mapsto> cfg_handler c))\<rparr>)
              = Some app"
    by (auto split: option.splits)
  from handle_preserves_lookup [OF h assms(2)] show ?thesis
    by (simp add: lookup_def)
qed

lemma respond_lookup_Some:
  "lookup app method path = Some handler \<Longrightarrow>
   buildParams env search method req = (evs, Inr params) \<Longrightarrow>
   respond env app path search method req
     = (evs @ [Invoke handler \<lparr> ctx_path = path, ctx_method = method, ctx_params = params \<rparr>],
        call env handler \<lparr> ctx_path = path, ctx_method = method, ctx_params = params \<rparr>)"
  by (auto simp: lookup_def respond_def Let_def split: option.splits)

lemma buildParams_no_Invoke: "filter isInvoke (fst (buildParams env search method req)) = []"
  by (simp add: buildParams_def Let_def split: option.splits prod.splits sum.splits)

lemma respondStatic_no_Invoke: "filter isInvoke (fst (respondStatic env app path)) = []"
  by (simp add: respondStatic_def Let_def split: option.splits prod.splits sum.splits)

lemma tryBlock_Invoke:
  "filter isInvoke (fst (tryBlock env app path search method req))
     = filter isInvoke (fst (respond env app path search method req))"
proof (cases "respond env app path search method req")
  case (Pair evs res)
  show ?thesis
  proof (cases "respondStatic env app path")
    case st: (Pair evs' res')
    have "filter isInvoke evs' = []"
      using respondStatic_no_Invoke [of env app path] st by simp
    then show ?thesis
      using Pair st by (simp add: tryBlock_def split: sum.splits option.splits)
  qed
qed

lemma iteration_Invoke:
  "req_url req = Some url \<Longrightarrow> url \<noteq> [] \<Longrightarrow> splitUrl url = (path, search) \<Longrightarrow>
   filter isInvoke (fst (iteration env app req))
     = filter isInvoke (fst (tryBlock env app path search (req_method req) req))"
  by (cases "tryBlock env app path search (req_method req) req")
    (simp add: iteration_def catchBlock_def split: sum.splits thrown.splits)

text \<open>
  Claim C1, as amended. Let a handler be registered for a method and path by \<^verbatim>\<open>handle\<close>,
  no later configuration naming the same pair. For a request with exactly that method and
  path, for which the construction of \<^verbatim>\<open>params\<close> (lines 92 to 129) completes without
  throwing, \<^verbatim>\<open>respond\<close> invokes that handler on the context made of the path, the
  method and those params and returns what the handler returns or throws; over the whole
  handling of the request this is the only handler invocation.
\<close>

theorem registered_handler_invoked:
  assumes "handle (pre @ c # post) app0 = Some app"
    and "\<forall>c' \<in> set post. \<not> (cfg_method c' = cfg_method c \<and> cfg_path c' = cfg_path c)"
    and "req_url req = Some url" and "url \<noteq> []" and "splitUrl url = (cfg_path c, search)"
    and "req_method req = cfg_method c"
    and "buildParams env search (cfg_method c) req = (evs, Inr params)"
  shows "respond env app (cfg_path c) search (cfg_method c) req
           = (evs @ [Invoke (cfg_handler c)
                       \<lparr> ctx_path = cfg_path c, ctx_method = cfg_method c, ctx_params = params \<rparr>],
              call env (cfg_handler c)
                \<lparr> ctx_path = cfg_path c, ctx_method = cfg_method c, ctx_params = params \<rparr>)
         \<and> filter isInvoke (fst (iteration env app req))
             = [Invoke (cfg_handler c)
                  \<lparr> ctx_path = cfg_path c, ctx_method = cfg_method c, ctx_params = params \<rparr>]"
proof -
  have l: "lookup app (cfg_method c) (cfg_path c) = Some (cfg_handler c)"
    using assms(1,2) by (rule handle_registers)
  have r: "respond env app (cfg_path c) search (cfg_method c) req
           = (evs @ [Invoke (cfg_handler c)
                       \<lparr> ctx_path = cfg_path c, ctx_method = cfg_method c, ctx_params = params \<rparr>],
              call env (cfg_handler c)
                \<lparr> ctx_path = cfg_path c, ctx_method = cfg_method c, ctx_params = params \<rparr>)"
    using l assms(7) by (rule respond_lookup_Some)
  have "filter isInvoke evs = []"
    using buildParams_no_Invoke [of env search "cfg_method c" req] assms(7) by simp
  then have "filter isInvoke (fst (respond env app (cfg_path c) search (cfg_method c) req))
               = [Invoke (cfg_handler c)
                    \<lparr> ctx_path = cfg_path c, ctx_method = cfg_method c, ctx_params = params \<rparr>]"
    using r by simp
  then show ?thesis
    using r iteration_Invoke [OF assms(3,4,5), of env app] assms(6)
    by (simp add: tryBlock_Invoke)
qed

lemma buildParams_hi:
  "buildParams example_env (Some ''x=1'') ''GET'' (example_request ''GET'' ''/hi?x=1'' None [])
     = ([], Inr [''raw'' \<mapsto> ''x=1''])"
  by (simp add: buildParams_def Method_GET_def example_env_def)

lemma splitUrl_hi: "splitUrl ''/hi?x=1'' = (''/hi'', Some ''x=1'')"
  by (simp add: isLineTerminator_def)

theorem registered_handler_invoked_witness:
  "respond example_env example_app ''/hi'' (Some ''x=1'') ''GET''
       (example_request ''GET'' ''/hi?x=1'' None [])
     = ([Invoke ''hello''
           \<lparr> ctx_path = ''/hi'', ctx_method = ''GET'', ctx_params = [''raw'' \<mapsto> ''x=1''] \<rparr>],
        Inr (Some (StatusBody 200 ''hello'')))
   \<and> filter isInvoke (fst (iteration example_env example_app
                              (example_request ''GET'' ''/hi?x=1'' None [])))
       = [Invoke ''hello''
            \<lparr> ctx_path = ''/hi'', ctx_method = ''GET'', ctx_params = [''raw'' \<mapsto> ''x=1''] \<rparr>]"
  using registered_handler_invoked [of "[]"
      "\<lparr> cfg_path = ''/hi'', cfg_method = ''GET'', cfg_handler = ''hello'' \<rparr>"
      "[\<lparr> cfg_path = ''/data'', cfg_method = ''POST'', cfg_handler = ''hello'' \<rparr>,
        \<lparr> cfg_path = ''/tea'', cfg_method = ''GET'', cfg_handler = ''teapot'' \<rparr>]"
      "new_App 8080 True ''public''" example_app
      "example_request ''GET'' ''/hi?x=1'' None []" "''/hi?x=1''" "Some ''x=1''"
      example_env "[]" "[''raw'' \<mapsto> ''x=1'']"]
    example_handle buildParams_hi splitUrl_hi
  by (simp add: example_cfgs_def example_request_sel example_env_def)

text \<open>
  The claim as written fails: \<^verbatim>\<open>POST /data\<close> is registered, and a request for it with
  content type \<^verbatim>\<open>application/json\<close> and a body that is not JSON is answered with 400
  without any handler being invoked.
\<close>

lemma iteration_data_oops:
  "iteration example_env example_app
     (example_request ''POST'' ''/data'' (Some ''application/json; charset=utf-8'') ''{oops'')
     = ([NewTextDecoder ''utf-8'', ReadBody, Respond (StatusBody 400 ''Bad Request'')], Inr ())"
  by (simp add: iteration_def tryBlock_def respond_def buildParams_def Method_GET_def
      example_request_sel example_app_POST rawContentType_of_def contentType_parts_json
      charset_utf8 example_env_def catchBlock_def BadRequest_def)

theorem registered_handler_not_invoked_counterexample:
  "handle example_cfgs (new_App 8080 True ''public'') = Some example_app
   \<and> \<lparr> cfg_path = ''/data'', cfg_method = ''POST'', cfg_handler = ''hello'' \<rparr> \<in> set example_cfgs
   \<and> splitUrl ''/data'' = (''/data'', None)
   \<and> filter isInvoke
        (fst (iteration example_env example_app
                (example_request ''POST'' ''/data'' (Some ''application/json; charset=utf-8'')
                   ''{oops'')))
       = []"
  by (simp add: example_handle iteration_data_oops) (simp add: example_cfgs_def)

subsection \<open>Bodies of requests other than GET\<close>

lemma fold_typeParams_absent:
  "\<forall>p \<in> set ps. fst (js_split CHR ''='' p) \<noteq> k \<Longrightarrow>
   fold (\<lambda>curr params.
           case js_split CHR ''='' curr of
             (key, vs) \<Rightarrow> params(key \<mapsto> (case vs of [] \<Rightarrow> None | v # _ \<Rightarrow> Some v)))
        ps M k = M k"
  by (induction ps arbitrary: M) (auto split: prod.splits)

lemma charset_default:
  "\<forall>p \<in> set ps. fst (js_split CHR ''='' p) \<noteq> ''charset'' \<Longrightarrow>
   charset_of (typeParams_of ps) = ''utf-8''"
  by (simp add: charset_of_def typeParams_of_def fold_typeParams_absent)


lemma contentType_token:
  "contentType_parts raw = (contentType, ps) \<Longrightarrow>
   contentType = trim (takeWhile (\<lambda>c. c \<noteq> CHR '';'') raw)"
  using fst_js_split [of "CHR '';''" raw]
  by (auto simp: contentType_parts_def split: prod.splits)


lemma contentType_parts_octet:
  "contentType_parts ''application/octet-stream'' = (''application/octet-stream'', [])"
  by (simp add: contentType_parts_def trim_def isWhiteSpace_def)

lemma buildParams_non_GET:
  assumes "method \<noteq> ''GET''"
    and "contentType_parts (rawContentType_of req) = (contentType, typeParamsArray)"
    and "TextDecoder env (charset_of (typeParams_of typeParamsArray)) = Inr decode"
    and "req_body req = Inr bytes"
  shows "buildParams env search method req
           = ([NewTextDecoder (charset_of (typeParams_of typeParamsArray)), ReadBody],
              if contentType = ''application/x-www-form-urlencoded'' then
                Inr (parseURLSearchParams env (decode bytes))
              else if contentType = ''application/json'' then
                (case JSON_parse env (decode bytes) of
                   None \<Rightarrow> Inl (ThrownNumber BadRequest)
                 | Some obj \<Rightarrow> Inr (Object_props env obj))
              else Inr Map.empty)"
  using assms by (simp add: buildParams_def Method_GET_def split: option.splits)





lemma lookup_example_data: "lookup example_app ''POST'' ''/data'' = Some ''hello''"
  by (simp add: lookup_def example_app_POST)









subsection \<open>Requests without a content type\<close>

text \<open>
  Claim C10. A request other than GET without a \<^verbatim>\<open>content-type\<close> header is treated
  as one whose header is \<^verbatim>\<open>application/octet-stream\<close>: the construction of params
  gives the same result for both. When the platform decodes \<^verbatim>\<open>utf-8\<close> and the body
  can be read, a \<^verbatim>\<open>utf-8\<close> decoder is constructed, the body is read, the params are
  empty, nothing is thrown for the missing header, and the matched handler is invoked on
  the path, the method and the empty params.
\<close>

theorem missing_content_type_is_octet_stream:
  assumes "req_content_type req = None" and "method \<noteq> ''GET''"
    and "TextDecoder env ''utf-8'' = Inr decode" and "req_body req = Inr bytes"
    and "lookup app method path = Some handler"
  shows "buildParams env search method req
           = buildParams env search method
               (req\<lparr>req_content_type := Some ''application/octet-stream''\<rparr>)
         \<and> buildParams env search method req
             = ([NewTextDecoder ''utf-8'', ReadBody], Inr Map.empty)
         \<and> respond env app path search method req
             = ([NewTextDecoder ''utf-8'', ReadBody,
                 Invoke handler \<lparr> ctx_path = path, ctx_method = method, ctx_params = Map.empty \<rparr>],
                call env handler
                  \<lparr> ctx_path = path, ctx_method = method, ctx_params = Map.empty \<rparr>)"
proof -
  have r: "rawContentType_of req = ''application/octet-stream''"
    using assms(1) by (simp add: rawContentType_of_def)
  have cs: "charset_of (typeParams_of []) = ''utf-8''"
    by (simp add: charset_default)
  have 1: "buildParams env search method req
             = buildParams env search method
                 (req\<lparr>req_content_type := Some ''application/octet-stream''\<rparr>)"
    using assms(1)
    by (simp add: buildParams_def rawContentType_of_def contentType_parts_octet Let_def
        split: sum.splits)
  have 2: "buildParams env search method req
             = ([NewTextDecoder ''utf-8'', ReadBody], Inr Map.empty)"
    using buildParams_non_GET [of "method" "req" "''application/octet-stream''" "[]" env decode bytes
        search] assms(2-4) r cs contentType_parts_octet
    by simp
  from respond_lookup_Some [OF assms(5) 2] have 3: "respond env app path search method req
             = ([NewTextDecoder ''utf-8'', ReadBody,
                 Invoke handler \<lparr> ctx_path = path, ctx_method = method, ctx_params = Map.empty \<rparr>],
                call env handler
                  \<lparr> ctx_path = path, ctx_method = method, ctx_params = Map.empty \<rparr>)"
    by simp
  from 1 2 3 show ?thesis by blast
qed

theorem missing_content_type_is_octet_stream_witness:
  "buildParams example_env None ''POST'' (example_request ''POST'' ''/data'' None ''secret'')
     = buildParams example_env None ''POST''
         (example_request ''POST'' ''/data'' (Some ''application/octet-stream'') ''secret'')
   \<and> respond example_env example_app ''/data'' None ''POST''
         (example_request ''POST'' ''/data'' None ''secret'')
       = ([NewTextDecoder ''utf-8'', ReadBody,
           Invoke ''hello''
             \<lparr> ctx_path = ''/data'', ctx_method = ''POST'', ctx_params = Map.empty \<rparr>],
          Inr (Some (StatusBody 200 ''hello'')))"
proof -
  let ?r = "example_request ''POST'' ''/data'' None ''secret''"
  have c: "req_content_type ?r = None" and b: "req_body ?r = Inr ''secret''"
    by (simp_all add: example_request_sel)
  have m: "''POST'' \<noteq> ''GET''"
    by simp
  have d: "TextDecoder example_env ''utf-8'' = Inr (\<lambda>b. b)"
    by (simp add: example_env_sel)
  note t = missing_content_type_is_octet_stream [OF c m d b lookup_example_data, of None]
  have u: "?r\<lparr>req_content_type := Some ''application/octet-stream''\<rparr>
             = example_request ''POST'' ''/data'' (Some ''application/octet-stream'') ''secret''"
    by (simp add: example_request_def)
  have 1: "buildParams example_env None ''POST'' ?r
     = buildParams example_env None ''POST''
         (example_request ''POST'' ''/data'' (Some ''application/octet-stream'') ''secret'')"
    using t [THEN conjunct1] by (simp only: u)
  have 2: "respond example_env example_app ''/data'' None ''POST'' ?r
       = ([NewTextDecoder ''utf-8'', ReadBody,
           Invoke ''hello''
             \<lparr> ctx_path = ''/data'', ctx_method = ''POST'', ctx_params = Map.empty \<rparr>],
          Inr (Some (StatusBody 200 ''hello'')))"
    using t [THEN conjunct2, THEN conjunct2] by (simp add: example_env_def)
  from 1 2 show ?thesis by (intro conjI)
qed

subsection \<open>The accept loop and empty request targets\<close>

lemma buildParams_no_Respond: "filter isRespond (fst (buildParams env search method req)) = []"
  by (simp add: buildParams_def Let_def split: option.splits prod.splits sum.splits)

lemma respond_no_Respond:
  "filter isRespond (fst (respond env app path search method req)) = []"
proof (cases "buildParams env search method req")
  case (Pair evs res)
  then have "filter isRespond evs = []"
    using buildParams_no_Respond [of env search "method" "req"] by simp
  then show ?thesis
    using Pair by (simp add: respond_def Let_def split: option.splits sum.splits)
qed

lemma respondStatic_no_Respond: "filter isRespond (fst (respondStatic env app path)) = []"
  by (simp add: respondStatic_def Let_def split: option.splits prod.splits sum.splits)

lemma tryBlock_no_Respond:
  "filter isRespond (fst (tryBlock env app path search method req)) = []"
proof (cases "respond env app path search method req")
  case (Pair evs res)
  then have e: "filter isRespond evs = []"
    using respond_no_Respond [of env app path search "method" "req"] by simp
  show ?thesis
  proof (cases "respondStatic env app path")
    case st: (Pair evs' res')
    then have "filter isRespond evs' = []"
      using respondStatic_no_Respond [of env app path] by simp
    then show ?thesis
      using Pair st e by (simp add: tryBlock_def split: sum.splits option.splits)
  qed
qed

lemma iteration_responds_once:
  assumes "req_url req = Some url" and "url \<noteq> []"
  shows "snd (iteration env app req) = Inr ()
         \<and> length (filter isRespond (fst (iteration env app req))) = 1"
proof (cases "splitUrl url")
  case (Pair path search)
  show ?thesis
  proof (cases "tryBlock env app path search (req_method req) req")
    case t: (Pair evs res)
    then have "filter isRespond evs = []"
      using tryBlock_no_Respond [of env app path search "req_method req" req] by simp
    then show ?thesis
      using assms Pair t
      by (simp add: iteration_def catchBlock_def split: sum.splits thrown.splits)
  qed
qed

lemma serve_responds_to_each:
  "\<forall>req \<in> set reqs. \<exists>url. req_url req = Some url \<and> url \<noteq> [] \<Longrightarrow>
   snd (serve env app reqs) = Inr ()
   \<and> length (filter isRespond (fst (serve env app reqs))) = length reqs"
proof (induction reqs)
  case Nil
  then show ?case by simp
next
  case (Cons req reqs)
  then obtain url where u: "req_url req = Some url" "url \<noteq> []"
    by auto
  obtain evs where i: "iteration env app req = (evs, Inr ())"
      and l: "length (filter isRespond evs) = 1"
    using iteration_responds_once [OF u, of env app]
    by (cases "iteration env app req") auto
  obtain evs' where s: "serve env app reqs = (evs', Inr ())"
      and l': "length (filter isRespond evs') = length reqs"
    using Cons by (cases "serve env app reqs") auto
  show ?case
    using i l s l' by simp
qed

text \<open>
  Claim C7. The claim says that every request is answered exactly once and that no failure
  ends the handling of later requests. The code does so for requests with a non-empty
  target (\<^verbatim>\<open>serve_responds_to_each\<close>), but the check \<^verbatim>\<open>if (!req.url) throw
  ErrorCode.NotFound\<close> stands before the \<^verbatim>\<open>try\<close> block: for a request with an empty
  target the exception leaves the loop, nothing is sent for that request and the request
  after it is never handled. Evaluated below: the same \<^verbatim>\<open>GET /hi\<close> that is answered with
  200 on its own gets no response when it follows a request with an empty target.
\<close>

theorem empty_target_stops_serve:
  "serve example_env example_app
     [example_request ''GET'' [] None [], example_request ''GET'' ''/hi'' None []]
     = ([], Inl (ThrownNumber 404))
   \<and> serve example_env example_app [example_request ''GET'' ''/hi'' None []]
       = ([Invoke ''hello'' \<lparr> ctx_path = ''/hi'', ctx_method = ''GET'', ctx_params = Map.empty \<rparr>,
           Respond (StatusBody 200 ''hello'')], Inr ())"
  by (simp add: iteration_def tryBlock_def respond_def buildParams_def Method_GET_def
      example_request_sel example_app_GET example_env_def NotFound_def)

subsection \<open>Splitting the request target\<close>

lemma splitUrl_no_question_mark: "CHR ''?'' \<notin> set url \<Longrightarrow> splitUrl url = (url, None)"
  by (induction url) auto

lemma splitUrl_first_question_mark:
  "CHR ''?'' \<notin> set p \<Longrightarrow> s \<noteq> [] \<Longrightarrow> \<forall>c \<in> set s. \<not> isLineTerminator c \<Longrightarrow>
   splitUrl (p @ CHR ''?'' # s) = (p, Some s)"
  by (induction p) (auto intro: list.set_sel(1))

lemma splitUrl_trailing_question_mark:
  "CHR ''?'' \<notin> set p \<Longrightarrow> splitUrl (p @ ''?'') = (p @ ''?'', None)"
  by (induction p) auto

text \<open>
  Claim C8. The claim says that the target is split at its first question mark. The
  regular expression \<^verbatim>\<open>/\?(.+)/\<close> needs a character after the question mark, so a
  target that ends in its only question mark is not split: the path of \<^verbatim>\<open>/hi?\<close> is
  \<^verbatim>\<open>/hi?\<close>, the route \<^verbatim>\<open>GET /hi\<close> is not found and the request is answered with
  404, while \<^verbatim>\<open>GET /hi\<close> itself reaches the handler with empty params.
\<close>

theorem trailing_question_mark_stays_in_path:
  "splitUrl ''/hi?'' = (''/hi?'', None)
   \<and> iteration example_env example_app (example_request ''GET'' ''/hi?'' None [])
       = ([Stat ''public/hi?'', Respond (StatusBody 404 ''Not Found'')], Inr ())
   \<and> iteration example_env example_app (example_request ''GET'' ''/hi'' None [])
       = ([Invoke ''hello'' \<lparr> ctx_path = ''/hi'', ctx_method = ''GET'', ctx_params = Map.empty \<rparr>,
           Respond (StatusBody 200 ''hello'')], Inr ())"
  by (simp add: iteration_def tryBlock_def respond_def buildParams_def Method_GET_def
      respondStatic_def catchBlock_def example_request_sel example_app_GET example_app_static
      example_env_def NotFound_def)

end
